theory Spec2Isabelle
  imports Main "HOL-Library.Word"
begin

section \<open>Python values used by tools/dlldiff.py\<close>

text \<open>
  The tool is Python: integers are unbounded (\<open>int\<close>), a \<open>bytes\<close> object is a list of
  8-bit values, and an index outside a sequence raises \<open>IndexError\<close>.
\<close>

type_synonym byte = "8 word"

datatype py_error = IndexError | ValueError | ParseError string

text \<open>Python's \<open>xs[i]\<close>: a negative index counts from the end, anything else out of
  range raises.\<close>

definition py_index :: "'a list \<Rightarrow> int \<Rightarrow> py_error + 'a" where
  "py_index xs i =
     (if 0 \<le> i \<and> i < int (length xs) then Inr (xs ! nat i)
      else if i < 0 \<and> - int (length xs) \<le> i then Inr (xs ! nat (int (length xs) + i))
      else Inl IndexError)"

text \<open>Python's \<open>range(n)\<close>: the integers from 0 up to \<open>n - 1\<close>, none when \<open>n \<le> 0\<close>.\<close>

definition py_range :: "int \<Rightarrow> int list" where
  "py_range n = [0..n - 1]"

subsection \<open>Number formatting\<close>

definition hex_digit :: "nat \<Rightarrow> char" where
  "hex_digit d = ''0123456789abcdef'' ! d"

fun hex_digits :: "nat \<Rightarrow> string" where
  "hex_digits n = (if n < 16 then [hex_digit n] else hex_digits (n div 16) @ [hex_digit (n mod 16)])"

declare hex_digits.simps [simp del]

fun dec_digits :: "nat \<Rightarrow> string" where
  "dec_digits n = (if n < 10 then [hex_digit n] else dec_digits (n div 10) @ [hex_digit (n mod 10)])"

declare dec_digits.simps [simp del]

text \<open>\<open>"{:#x}".format(v)\<close>: sign, then \<open>0x\<close>, then the lower-case hexadecimal digits.\<close>

definition fmt_hex :: "int \<Rightarrow> string" where
  "fmt_hex v = (if v < 0 then ''-0x'' @ hex_digits (nat (- v)) else ''0x'' @ hex_digits (nat v))"

text \<open>\<open>"{}".format(v)\<close> on an integer: the decimal digits, with a minus sign when negative.\<close>

definition fmt_dec :: "int \<Rightarrow> string" where
  "fmt_dec v = (if v < 0 then ''-'' @ dec_digits (nat (- v)) else dec_digits (nat v))"

section \<open>The module view consumed by the diff\<close>

text \<open>
  \<open>dino.dll.DLL\<close> and \<open>dino.dll_tab.DLLTab\<close> are imported by the tool; the records below
  hold the attributes that \<open>iter_diffs\<close> and \<open>diff\<close> read from them.
\<close>

record dll_header =
  size :: int
  rodata_offset :: int
  data_offset :: int
  ctor_offset :: int
  dtor_offset :: int
  export_count :: int
  export_offsets :: "int list"

text \<open>Modelled from the spec: the relocation table is an opaque byte span of which only
  the size matters; \<open>get_size()\<close> of \<open>dino.dll\<close> is not in the sources at hand.\<close>

record dll_reloc_table =
  table_size :: nat

definition reloc_get_size :: "dll_reloc_table \<Rightarrow> int" where
  "reloc_get_size t = int (table_size t)"

record dll =
  header :: dll_header
  reloc_table :: dll_reloc_table
  buffer_length :: nat

text \<open>Modelled from the spec: \<open>text_size_bytes = header.rodata_offset - header.size\<close>;
  the accessor \<open>DLL.get_text_size\<close> is not in the sources at hand.\<close>

definition get_text_size :: "dll \<Rightarrow> int" where
  "get_text_size d = rodata_offset (header d) - size (header d)"

text \<open>Modelled from the spec:
  \<open>rodata_size_bytes = header.data_offset - (header.rodata_offset + reloc_table.size)\<close>;
  the accessor \<open>DLL.get_rodata_size\<close> is not in the sources at hand.\<close>

definition get_rodata_size :: "dll \<Rightarrow> int" where
  "get_rodata_size d =
     data_offset (header d) - (rodata_offset (header d) + reloc_get_size (reloc_table d))"

text \<open>Modelled from the spec: \<open>data_size_bytes = buffer_length - header.data_offset\<close>;
  the accessor \<open>DLL.get_data_size\<close> is not in the sources at hand.\<close>

definition get_data_size :: "dll \<Rightarrow> int" where
  "get_data_size d = int (buffer_length d) - data_offset (header d)"

text \<open>Modelled from the spec: \<open>ram_size\<close> is the total in-memory footprint, text plus
  rodata plus data, relative to the header; the accessor \<open>DLL.get_ram_size\<close> is not in
  the sources at hand.\<close>

definition get_ram_size :: "dll \<Rightarrow> int" where
  "get_ram_size d = get_text_size d + get_rodata_size d + get_data_size d"

section \<open>Discrepancy reports\<close>

text \<open>
  One constructor per \<open>yield\<close> of \<open>iter_diffs\<close>, holding the arguments of its
  \<open>format\<close> call in the order the source passes them.
\<close>

datatype report =
    TextOffset int int
  | RodataOffset int int
  | DataOffset int int
  | BssOffset int int
  | CtorOffset int int
  | DtorOffset int int
  | ExportCount int int
  | ExportMismatch int int int
  | TextSize int int
  | TextMismatch int byte byte
  | RodataSize int int
  | RodataMismatch int byte byte
  | DataSize int int
  | DataMismatch int byte byte
  | BssSize int int

text \<open>A format string is literal text with holes: \<open>{:#x}\<close> is \<open>Hex\<close>, \<open>{}\<close> is \<open>Dec\<close>.\<close>

datatype piece = Lit string | Hex int | Dec int

fun render_piece :: "piece \<Rightarrow> string" where
  "render_piece (Lit s) = s"
| "render_piece (Hex v) = fmt_hex v"
| "render_piece (Dec v) = fmt_dec v"

fun template :: "report \<Rightarrow> piece list" where
  "template (TextOffset e f) =
     [Lit ''.text offset mismatch: expected '', Hex e, Lit '', found '', Hex f]"
| "template (RodataOffset e f) =
     [Lit ''.rodata offset mismatch: expected '', Hex e, Lit '', found '', Hex f]"
| "template (DataOffset e f) =
     [Lit ''.data offset mismatch: expected '', Hex e, Lit '', found '', Hex f]"
| "template (BssOffset e f) =
     [Lit ''.bss offset mismatch: expected '', Hex e, Lit '', found '', Hex f]"
| "template (CtorOffset e f) =
     [Lit ''Ctor offset mismatch: expected '', Hex e, Lit '', found '', Hex f]"
| "template (DtorOffset e f) =
     [Lit ''Dtor offset mismatch: expected '', Hex e, Lit '', found '', Hex f]"
| "template (ExportCount e f) =
     [Lit ''Export count mismatch: expected '', Hex e, Lit '', found '', Hex f]"
| "template (ExportMismatch i e f) =
     [Lit ''First export mismatch at idx '', Dec i, Lit '': expected '', Hex e,
      Lit '', found '', Hex f]"
| "template (TextSize e f) =
     [Lit ''.text size mismatch: expected '', Hex e, Lit '', found '', Hex f]"
| "template (TextMismatch i e f) =
     [Lit ''First .text mismatch at .text+'', Hex i, Lit '': expected '', Hex (uint e),
      Lit '', found '', Hex (uint f)]"
| "template (RodataSize e f) =
     [Lit ''.rodata size mismatch: expected '', Hex e, Lit '', found '', Hex f]"
| "template (RodataMismatch i e f) =
     [Lit ''First .rodata mismatch at .rodata+'', Hex i, Lit '': expected '', Hex (uint e),
      Lit '', found '', Hex (uint f)]"
| "template (DataSize e f) =
     [Lit ''.data size mismatch: expected '', Hex e, Lit '', found '', Hex f]"
| "template (DataMismatch i e f) =
     [Lit ''First .data mismatch at .data+'', Hex i, Lit '': expected '', Hex (uint e),
      Lit '', found '', Hex (uint f)]"
| "template (BssSize e f) =
     [Lit ''.bss size mismatch: expected '', Hex e, Lit '', found '', Hex f]"

definition render :: "report \<Rightarrow> string" where
  "render r = concat (map render_piece (template r))"

section \<open>Generators\<close>

text \<open>
  \<open>iter_diffs\<close> is a generator: it yields reports one after the other and ends either
  normally or with an exception. A run is the list of what was yielded and the exception
  that ended it, if any.
\<close>

type_synonym 'a gen = "'a list \<times> py_error option"

definition yields :: "'a gen \<Rightarrow> 'a list" where
  "yields g = fst g"

definition raised :: "'a gen \<Rightarrow> py_error option" where
  "raised g = snd g"

definition gen_then :: "'a gen \<Rightarrow> 'a gen \<Rightarrow> 'a gen" where
  "gen_then g h = (case snd g of Some e \<Rightarrow> g | None \<Rightarrow> (fst g @ fst h, snd h))"

definition gen_seq :: "'a gen list \<Rightarrow> 'a gen" where
  "gen_seq gs = foldr gen_then gs ([], None)"

definition gen_map :: "('a \<Rightarrow> 'b) \<Rightarrow> 'a gen \<Rightarrow> 'b gen" where
  "gen_map f g = (map f (fst g), snd g)"

section \<open>iter\_diffs\<close>

text \<open>A comparison that yields one report when the two values differ.\<close>

definition check_equal :: "(int \<Rightarrow> int \<Rightarrow> report) \<Rightarrow> int \<Rightarrow> int \<Rightarrow> report gen" where
  "check_equal mk base_v targ_v = (if base_v \<noteq> targ_v then ([mk targ_v base_v], None) else ([], None))"

text \<open>
  The loop of lines 38 to 43: the first index at which the two tables differ is reported
  and the loop is left; reading past the end of either table raises.
\<close>

fun export_loop :: "int list \<Rightarrow> int list \<Rightarrow> int list \<Rightarrow> report gen" where
  "export_loop base_exports targ_exports [] = ([], None)"
| "export_loop base_exports targ_exports (idx # rest) =
     (case py_index base_exports idx of
        Inl e \<Rightarrow> ([], Some e)
      | Inr base_export \<Rightarrow>
         (case py_index targ_exports idx of
            Inl e \<Rightarrow> ([], Some e)
          | Inr targ_export \<Rightarrow>
              if base_export \<noteq> targ_export
              then ([ExportMismatch idx targ_export base_export], None)
              else export_loop base_exports targ_exports rest))"

definition check_exports :: "dll \<Rightarrow> dll \<Rightarrow> report gen" where
  "check_exports base targ =
     (if export_count (header base) \<noteq> export_count (header targ)
      then ([ExportCount (export_count (header targ)) (export_count (header base))], None)
      else export_loop (export_offsets (header base)) (export_offsets (header targ))
             (py_range (export_count (header base))))"

text \<open>
  The byte loops of lines 48 to 53, 60 to 65 and 70 to 75 have one shape: each side is read
  at its own start offset plus the index, the first differing byte is reported and the loop
  is left.
\<close>

fun byte_loop ::
  "(int \<Rightarrow> byte \<Rightarrow> byte \<Rightarrow> report) \<Rightarrow> byte list \<Rightarrow> int \<Rightarrow> byte list \<Rightarrow> int \<Rightarrow> int list \<Rightarrow> report gen"
where
  "byte_loop mk base_data base_off targ_data targ_off [] = ([], None)"
| "byte_loop mk base_data base_off targ_data targ_off (idx # rest) =
     (case py_index base_data (base_off + idx) of
        Inl e \<Rightarrow> ([], Some e)
      | Inr base_byte \<Rightarrow>
         (case py_index targ_data (targ_off + idx) of
            Inl e \<Rightarrow> ([], Some e)
          | Inr targ_byte \<Rightarrow>
              if base_byte \<noteq> targ_byte
              then ([mk idx targ_byte base_byte], None)
              else byte_loop mk base_data base_off targ_data targ_off rest))"

definition check_text :: "dll \<Rightarrow> byte list \<Rightarrow> dll \<Rightarrow> byte list \<Rightarrow> report gen" where
  "check_text base base_data targ targ_data =
     (if get_text_size base \<noteq> get_text_size targ
      then ([TextSize (get_text_size targ) (get_text_size base)], None)
      else byte_loop TextMismatch base_data (size (header base)) targ_data (size (header targ))
             (py_range (get_text_size base)))"

definition check_rodata :: "dll \<Rightarrow> byte list \<Rightarrow> dll \<Rightarrow> byte list \<Rightarrow> report gen" where
  "check_rodata base base_data targ targ_data =
     (if get_rodata_size base \<noteq> get_rodata_size targ
      then ([RodataSize (get_rodata_size targ) (get_rodata_size base)], None)
      else
        (let base_rodata_offset = rodata_offset (header base) + reloc_get_size (reloc_table base);
             targ_rodata_offset = rodata_offset (header targ) + reloc_get_size (reloc_table targ)
         in byte_loop RodataMismatch base_data base_rodata_offset targ_data targ_rodata_offset
              (py_range (get_rodata_size base))))"

definition check_data :: "dll \<Rightarrow> byte list \<Rightarrow> dll \<Rightarrow> byte list \<Rightarrow> report gen" where
  "check_data base base_data targ targ_data =
     (if get_data_size base \<noteq> get_data_size targ
      then ([DataSize (get_data_size targ) (get_data_size base)], None)
      else byte_loop DataMismatch base_data (data_offset (header base)) targ_data
             (data_offset (header targ)) (py_range (get_data_size base)))"

text \<open>The checks of \<open>iter_diffs\<close> in source order, as structured reports.\<close>

definition iter_checks ::
  "dll \<Rightarrow> byte list \<Rightarrow> int \<Rightarrow> dll \<Rightarrow> byte list \<Rightarrow> int \<Rightarrow> report gen list"
where
  "iter_checks base base_data base_bss_size targ targ_data targ_bss_size =
     [check_equal TextOffset (size (header base)) (size (header targ)),
      check_equal RodataOffset (rodata_offset (header base)) (rodata_offset (header targ)),
      check_equal DataOffset (data_offset (header base)) (data_offset (header targ)),
      check_equal BssOffset (get_ram_size base) (get_ram_size targ),
      check_equal CtorOffset (ctor_offset (header base)) (ctor_offset (header targ)),
      check_equal DtorOffset (dtor_offset (header base)) (dtor_offset (header targ)),
      check_exports base targ,
      check_text base base_data targ targ_data,
      check_rodata base base_data targ targ_data,
      check_data base base_data targ targ_data,
      check_equal BssSize base_bss_size targ_bss_size]"

definition iter_reports ::
  "dll \<Rightarrow> byte list \<Rightarrow> int \<Rightarrow> dll \<Rightarrow> byte list \<Rightarrow> int \<Rightarrow> report gen"
where
  "iter_reports base base_data base_bss_size targ targ_data targ_bss_size =
     gen_seq (iter_checks base base_data base_bss_size targ targ_data targ_bss_size)"

text \<open>What the generator yields: the formatted strings.\<close>

definition iter_diffs ::
  "dll \<Rightarrow> byte list \<Rightarrow> int \<Rightarrow> dll \<Rightarrow> byte list \<Rightarrow> int \<Rightarrow> string gen"
where
  "iter_diffs base base_data base_bss_size targ targ_data targ_bss_size =
     gen_map render (iter_reports base base_data base_bss_size targ targ_data targ_bss_size)"

section \<open>The driver\<close>

text \<open>Modelled from the spec: a module-table entry carries at least the declared
  \<open>bss_size\<close>, and the table is the ordered sequence of its entries; \<open>dino.dll_tab\<close> is
  not in the sources at hand.\<close>

record dlltab_entry =
  bss_size :: int

record dlltab =
  entries :: "dlltab_entry list"

subsection \<open>Python's int() on a string\<close>

text \<open>
  \<open>int(s)\<close> strips white space, takes an optional sign and then decimal digits, where
  single underscores may separate digits; anything else raises \<open>ValueError\<close>. Strings are
  byte strings here, so digits outside ASCII are not covered.
\<close>

definition py_isspace :: "char \<Rightarrow> bool" where
  "py_isspace c =
     (let n = (of_char c :: nat) in (9 \<le> n \<and> n \<le> 13) \<or> (28 \<le> n \<and> n \<le> 32))"

definition py_strip :: "string \<Rightarrow> string" where
  "py_strip s = rev (dropWhile py_isspace (rev (dropWhile py_isspace s)))"

definition is_digit :: "char \<Rightarrow> bool" where
  "is_digit c = (let n = (of_char c :: nat) in 48 \<le> n \<and> n \<le> 57)"

definition digit_value :: "char \<Rightarrow> nat" where
  "digit_value c = of_char c - 48"

fun digits_rest :: "nat \<Rightarrow> string \<Rightarrow> nat option" where
  "digits_rest acc [] = Some acc"
| "digits_rest acc [c] = (if is_digit c then Some (acc * 10 + digit_value c) else None)"
| "digits_rest acc (c # d # cs) =
     (if is_digit c then digits_rest (acc * 10 + digit_value c) (d # cs)
      else if c = CHR ''_'' \<and> is_digit d then digits_rest (acc * 10 + digit_value d) cs
      else None)"

definition py_digits :: "string \<Rightarrow> py_error + int" where
  "py_digits s =
     (case s of
        [] \<Rightarrow> Inl ValueError
      | c # cs \<Rightarrow>
          if is_digit c
          then (case digits_rest (digit_value c) cs of
                  None \<Rightarrow> Inl ValueError
                | Some v \<Rightarrow> Inr (int v))
          else Inl ValueError)"

definition py_int :: "string \<Rightarrow> py_error + int" where
  "py_int s =
     (case py_strip s of
        [] \<Rightarrow> Inl ValueError
      | c # cs \<Rightarrow>
          if c = CHR ''-'' then map_sum id uminus (py_digits cs)
          else if c = CHR ''+'' then py_digits cs
          else py_digits (c # cs))"

subsection \<open>diff\<close>

text \<open>
  What \<open>diff\<close> touches outside its arguments: the files under the two asset roots, the
  absolute form of a path for the error message, and the imported \<open>DLL.parse\<close> and
  \<open>hashlib.md5(...).hexdigest()\<close>.
\<close>

record world =
  files :: "string \<Rightarrow> byte list option"
  absolute :: "string \<Rightarrow> string"
  dll_parse :: "byte list \<Rightarrow> string \<Rightarrow> py_error + dll"
  md5_hexdigest :: "byte list \<Rightarrow> string"

datatype ending = Returned | Exited int | Raised py_error

type_synonym run = "string list \<times> ending"

definition BIN_ASSETS_DIR :: string where
  "BIN_ASSETS_DIR = ''bin/assets''"

definition BUILD_ASSETS_DIR :: string where
  "BUILD_ASSETS_DIR = ''build/bin/assets''"

definition joinpath :: "string \<Rightarrow> string \<Rightarrow> string" where
  "joinpath dir rel = dir @ ''/'' @ rel"

text \<open>Lines 92 to 95: the two table lookups at \<open>int(dll) - 1\<close>.\<close>

definition load_bss_sizes :: "dlltab \<Rightarrow> dlltab \<Rightarrow> string \<Rightarrow> py_error + (int \<times> int)" where
  "load_bss_sizes base_tab targ_tab dll_id =
     (case py_int dll_id of
        Inl e \<Rightarrow> Inl e
      | Inr dll_int \<Rightarrow>
         (case py_index (entries base_tab) (dll_int - 1) of
            Inl e \<Rightarrow> Inl e
          | Inr base_entry \<Rightarrow>
             (case py_index (entries targ_tab) (dll_int - 1) of
                Inl e \<Rightarrow> Inl e
              | Inr targ_entry \<Rightarrow> Inr (bss_size base_entry, bss_size targ_entry))))"

text \<open>Lines 98 to 121: parse both files, print what \<open>iter_diffs\<close> yields under a heading,
  and fall back to the MD5 comparison when it yields nothing.\<close>

definition compare_files ::
  "world \<Rightarrow> string \<Rightarrow> bool \<Rightarrow> int \<Rightarrow> int \<Rightarrow> byte list \<Rightarrow> byte list \<Rightarrow> run"
where
  "compare_files w dll_id quiet_match base_bss_size targ_bss_size targ_data base_data =
     (case dll_parse w targ_data dll_id of
        Inl e \<Rightarrow> ([], Raised e)
      | Inr target \<Rightarrow>
         (case dll_parse w base_data dll_id of
            Inl e \<Rightarrow> ([], Raised e)
          | Inr base \<Rightarrow>
             (let g = iter_diffs base base_data base_bss_size target targ_data targ_bss_size;
                  out = (if yields g = [] then [] else (''DLL '' @ dll_id @ '':'') # yields g)
              in case raised g of
                   Some e \<Rightarrow> (out, Raised e)
                 | None \<Rightarrow>
                     if yields g \<noteq> [] then (out, Returned)
                     else
                       (let base_md5 = md5_hexdigest w base_data;
                            targ_md5 = md5_hexdigest w targ_data
                        in if base_md5 = targ_md5
                           then (if \<not> quiet_match then [''DLL '' @ dll_id @ '': OK.''] else [],
                                 Returned)
                           else ([''DLL '' @ dll_id @ '':'',
                                  ''MD5 mismatch: expected '' @ targ_md5 @ '', found '' @ base_md5],
                                 Returned)))))"

definition diff :: "world \<Rightarrow> dlltab \<Rightarrow> dlltab \<Rightarrow> string \<Rightarrow> bool \<Rightarrow> run" where
  "diff w base_tab targ_tab dll_id quiet_match =
     (let target_dll_path = joinpath BIN_ASSETS_DIR (''dlls/'' @ dll_id @ ''.dll'');
          base_dll_path = joinpath BUILD_ASSETS_DIR (''dlls/'' @ dll_id @ ''.dll'')
      in case files w target_dll_path of
           None \<Rightarrow> ([''ERR: DLL not found @ '' @ absolute w target_dll_path], Exited 1)
         | Some targ_data \<Rightarrow>
            (case files w base_dll_path of
               None \<Rightarrow> ([''ERR: DLL not found @ '' @ absolute w base_dll_path], Exited 1)
             | Some base_data \<Rightarrow>
                (case load_bss_sizes base_tab targ_tab dll_id of
                   Inl e \<Rightarrow> ([], Raised e)
                 | Inr (base_bss_size, targ_bss_size) \<Rightarrow>
                     compare_files w dll_id quiet_match base_bss_size targ_bss_size
                       targ_data base_data)))"

section \<open>Notions used to state the properties\<close>

text \<open>The place of a report in the check order of \<open>iter_diffs\<close>: the two export reports
  share a place, and so do the size and content reports of each section.\<close>

fun category :: "report \<Rightarrow> nat" where
  "category (TextOffset e f) = 0"
| "category (RodataOffset e f) = 1"
| "category (DataOffset e f) = 2"
| "category (BssOffset e f) = 3"
| "category (CtorOffset e f) = 4"
| "category (DtorOffset e f) = 5"
| "category (ExportCount e f) = 6"
| "category (ExportMismatch i e f) = 6"
| "category (TextSize e f) = 7"
| "category (TextMismatch i e f) = 7"
| "category (RodataSize e f) = 8"
| "category (RodataMismatch i e f) = 8"
| "category (DataSize e f) = 9"
| "category (DataMismatch i e f) = 9"
| "category (BssSize e f) = 10"

text \<open>A check at place \<open>k\<close> yields nothing or one report of category \<open>k\<close>.\<close>

definition step_at :: "nat \<Rightarrow> report gen \<Rightarrow> bool" where
  "step_at k g = (case fst g of [] \<Rightarrow> True | [r] \<Rightarrow> category r = k | _ \<Rightarrow> False)"

fun steps_from :: "nat \<Rightarrow> report gen list \<Rightarrow> bool" where
  "steps_from k [] = True"
| "steps_from k (g # gs) = (step_at k g \<and> steps_from (Suc k) gs)"

text \<open>The section-order invariant of a module against the buffer it was parsed from.\<close>

definition section_order :: "dll \<Rightarrow> byte list \<Rightarrow> bool" where
  "section_order d buf =
     (0 \<le> size (header d) \<and>
      size (header d) \<le> rodata_offset (header d) \<and>
      rodata_offset (header d) + reloc_get_size (reloc_table d) \<le> data_offset (header d) \<and>
      data_offset (header d) \<le> int (length buf) \<and>
      buffer_length d = length buf)"

text \<open>The export table holds \<open>export_count\<close> entries.\<close>

definition exports_consistent :: "dll \<Rightarrow> bool" where
  "exports_consistent d = (export_count (header d) = int (length (export_offsets (header d))))"


subsection \<open>A small module for worked examples\<close>

text \<open>Header of 4 bytes, \<open>.text\<close> at 4 to 7, a relocation table of 2 bytes at 8,
  \<open>.rodata\<close> at 10 and 11, \<open>.data\<close> at 12 and 13.\<close>

definition ex_header :: dll_header where
  "ex_header = \<lparr>size = 4, rodata_offset = 8, data_offset = 12, ctor_offset = 4,
     dtor_offset = 6, export_count = 3, export_offsets = [4, 5, 6]\<rparr>"

definition ex_dll :: dll where
  "ex_dll = \<lparr>header = ex_header, reloc_table = \<lparr>table_size = 2\<rparr>, buffer_length = 14\<rparr>"

definition ex_data :: "byte list" where
  "ex_data = [0, 0, 0, 4, 17, 18, 19, 20, 0, 0, 33, 34, 49, 50]"

text \<open>An index that falls inside a buffer, counted from its start.\<close>

definition in_bounds :: "byte list \<Rightarrow> int \<Rightarrow> bool" where
  "in_bounds buf i = (0 \<le> i \<and> i < int (length buf))"






subsection \<open>Further example inputs\<close>











text \<open>Module tables of three entries, and a world in which the files of modules 0 and 2
  exist on both sides.\<close>

definition ex_tab_base :: dlltab where
  "ex_tab_base = \<lparr>entries = [\<lparr>bss_size = 16\<rparr>, \<lparr>bss_size = 32\<rparr>, \<lparr>bss_size = 48\<rparr>]\<rparr>"

definition ex_tab_targ :: dlltab where
  "ex_tab_targ = \<lparr>entries = [\<lparr>bss_size = 16\<rparr>, \<lparr>bss_size = 36\<rparr>, \<lparr>bss_size = 52\<rparr>]\<rparr>"

definition ex_world :: world where
  "ex_world = \<lparr>
     files = (\<lambda>path. if path \<in> set [''bin/assets/dlls/2.dll'', ''build/bin/assets/dlls/2.dll'',
                                      ''bin/assets/dlls/0.dll'', ''build/bin/assets/dlls/0.dll'']
                      then Some ex_data else None),
     absolute = (\<lambda>path. ''/'' @ path),
     dll_parse = (\<lambda>buf ident. Inr ex_dll),
     md5_hexdigest = (\<lambda>buf. '''')\<rparr>"

section \<open>Composition of the checks\<close>

lemma gen_seq_Nil: "gen_seq [] = ([], None)"
  by (simp add: gen_seq_def)

lemma gen_seq_Cons: "gen_seq (g # gs) = gen_then g (gen_seq gs)"
  by (simp add: gen_seq_def)

lemma step_at_check_equal:
  "(\<And>e f. category (mk e f) = k) \<Longrightarrow> step_at k (check_equal mk a b)"
  by (simp add: step_at_def check_equal_def)

lemma step_at_export_loop: "step_at 6 (export_loop bs ts idxs)"
  by (induction idxs) (simp_all add: step_at_def split: sum.splits)

lemma step_at_check_exports: "step_at 6 (check_exports b t)"
  using step_at_export_loop by (simp add: check_exports_def) (simp add: step_at_def)

lemma step_at_byte_loop:
  "(\<And>i e f. category (mk i e f) = k) \<Longrightarrow> step_at k (byte_loop mk bd bo td to idxs)"
  by (induction idxs) (simp_all add: step_at_def split: sum.splits)

lemma step_at_check_text: "step_at 7 (check_text b bd t td)"
  using step_at_byte_loop [of TextMismatch 7]
  by (simp add: check_text_def) (simp add: step_at_def)

lemma step_at_check_rodata: "step_at 8 (check_rodata b bd t td)"
  using step_at_byte_loop [of RodataMismatch 8]
  by (simp add: check_rodata_def Let_def) (simp add: step_at_def)

lemma step_at_check_data: "step_at 9 (check_data b bd t td)"
  using step_at_byte_loop [of DataMismatch 9]
  by (simp add: check_data_def) (simp add: step_at_def)

lemma steps_from_iter_checks: "steps_from 0 (iter_checks b bd bs t td ts)"
  using step_at_check_exports [of b t] step_at_check_text [of b bd t td]
    step_at_check_rodata [of b bd t td] step_at_check_data [of b bd t td]
  by (simp add: iter_checks_def step_at_check_equal eval_nat_numeral)

lemma steps_from_sorted:
  "steps_from k gs \<Longrightarrow>
     sorted_wrt (<) (map category (fst (gen_seq gs))) \<and>
     (\<forall>r \<in> set (fst (gen_seq gs)). k \<le> category r)"
proof (induction gs arbitrary: k)
  case Nil
  then show ?case by (simp add: gen_seq_Nil)
next
  case (Cons g gs)
  from Cons.prems have g: "step_at k g" and rest: "steps_from (Suc k) gs" by simp_all
  from Cons.IH [OF rest] have
    srt: "sorted_wrt (<) (map category (fst (gen_seq gs)))" and
    low: "\<forall>r \<in> set (fst (gen_seq gs)). Suc k \<le> category r" by simp_all
  show ?case
  proof (cases "fst g")
    case Nil
    with srt low show ?thesis
      by (cases "snd g") (auto simp: gen_seq_Cons gen_then_def)
  next
    case (Cons r rs)
    with g have "rs = []" and "category r = k"
      by (auto simp: step_at_def split: list.splits)
    with Cons srt low show ?thesis
      by (cases "snd g") (auto simp: gen_seq_Cons gen_then_def)
  qed
qed

section \<open>The loops\<close>

lemma set_py_range: "set (py_range n) = {0..<n}"
  by (auto simp: py_range_def)

lemma py_index_in_range:
  "0 \<le> i \<Longrightarrow> i < int (length xs) \<Longrightarrow> py_index xs i = Inr (xs ! nat i)"
  by (simp add: py_index_def)

lemma yields_gen_seq_empty:
  "(\<And>g. g \<in> set gs \<Longrightarrow> fst g = []) \<Longrightarrow> fst (gen_seq gs) = []"
  by (induction gs) (auto simp: gen_seq_Nil gen_seq_Cons gen_then_def split: option.splits)

lemma raised_gen_seq_None:
  "(\<And>g. g \<in> set gs \<Longrightarrow> snd g = None) \<Longrightarrow> snd (gen_seq gs) = None"
  by (induction gs) (auto simp: gen_seq_Nil gen_seq_Cons gen_then_def split: option.splits)

lemma export_loop_same: "fst (export_loop xs xs idxs) = []"
  by (induction idxs) (simp_all split: sum.splits)

lemma byte_loop_same: "fst (byte_loop mk d off d off idxs) = []"
  by (induction idxs) (simp_all split: sum.splits)

lemma check_equal_same: "check_equal mk v v = ([], None)"
  by (simp add: check_equal_def)

lemma export_loop_no_raise:
  "(\<And>idx. idx \<in> set idxs \<Longrightarrow> 0 \<le> idx \<and> idx < int (length bs) \<and> idx < int (length ts)) \<Longrightarrow>
   snd (export_loop bs ts idxs) = None"
  by (induction idxs) (simp_all add: py_index_in_range)

lemma byte_loop_no_raise:
  "(\<And>idx. idx \<in> set idxs \<Longrightarrow>
      0 \<le> bo + idx \<and> bo + idx < int (length bd) \<and> 0 \<le> to + idx \<and> to + idx < int (length td)) \<Longrightarrow>
   snd (byte_loop mk bd bo td to idxs) = None"
  by (induction idxs) (simp_all add: py_index_in_range)

lemma check_exports_no_raise:
  "exports_consistent b \<Longrightarrow> exports_consistent t \<Longrightarrow> snd (check_exports b t) = None"
  by (auto simp: check_exports_def exports_consistent_def set_py_range intro!: export_loop_no_raise)

lemma check_text_no_raise:
  "section_order b bd \<Longrightarrow> section_order t td \<Longrightarrow> snd (check_text b bd t td) = None"
  by (auto simp: check_text_def section_order_def get_text_size_def set_py_range reloc_get_size_def
      intro!: byte_loop_no_raise)

lemma check_rodata_no_raise:
  "section_order b bd \<Longrightarrow> section_order t td \<Longrightarrow> snd (check_rodata b bd t td) = None"
  by (auto simp: check_rodata_def Let_def section_order_def get_rodata_size_def set_py_range
      reloc_get_size_def intro!: byte_loop_no_raise)

lemma check_data_no_raise:
  "section_order b bd \<Longrightarrow> section_order t td \<Longrightarrow> snd (check_data b bd t td) = None"
  by (auto simp: check_data_def section_order_def get_data_size_def set_py_range
      reloc_get_size_def intro!: byte_loop_no_raise)

lemma check_equal_no_raise: "snd (check_equal mk a b) = None"
  by (simp add: check_equal_def)

lemma iter_reports_no_raise:
  assumes "section_order b bd" "section_order t td" "exports_consistent b" "exports_consistent t"
  shows "snd (iter_reports b bd bs t td ts) = None"
  unfolding iter_reports_def
  by (rule raised_gen_seq_None)
     (auto simp: iter_checks_def check_equal_no_raise check_exports_no_raise [OF assms(3,4)]
        check_text_no_raise [OF assms(1,2)] check_rodata_no_raise [OF assms(1,2)]
        check_data_no_raise [OF assms(1,2)])

lemma iter_reports_same_yields: "fst (iter_reports d buf s d buf s) = []"
  unfolding iter_reports_def
  by (rule yields_gen_seq_empty)
     (auto simp: iter_checks_def check_equal_same check_exports_def check_text_def
        check_rodata_def check_data_def Let_def export_loop_same byte_loop_same)










section \<open>Reports of one category\<close>











section \<open>The worked example is well formed\<close>

lemma ex_section_order: "section_order ex_dll ex_data"
  by (simp add: section_order_def ex_dll_def ex_header_def ex_data_def reloc_get_size_def)

lemma ex_exports_consistent: "exports_consistent ex_dll"
  by (simp add: exports_consistent_def ex_dll_def ex_header_def)

section \<open>Evaluation on concrete inputs\<close>

lemmas upto_rec_small =
  upto.simps [of 0 "numeral n"] upto.simps [of 1 "numeral n"] upto.simps [of 0 1] for n

lemmas ex_eval = upto_rec_small iter_diffs_def iter_reports_def iter_checks_def gen_seq_def gen_then_def
  gen_map_def check_equal_def check_exports_def check_text_def check_rodata_def check_data_def
  get_text_size_def get_rodata_size_def get_data_size_def get_ram_size_def reloc_get_size_def
  py_range_def py_index_def Let_def yields_def raised_def
  render_def fmt_hex_def fmt_dec_def hex_digits.simps dec_digits.simps hex_digit_def


lemma ex_dll_bss_only0:
  "iter_diffs ex_dll ex_data 48 ex_dll ex_data 52 =
     ([''.bss size mismatch: expected 0x34, found 0x30''], None)"
  by (simp add: ex_eval ex_dll_def ex_header_def ex_data_def)



lemma py_int_0: "py_int ''0'' = Inr 0"
  by (simp add: py_int_def py_strip_def py_isspace_def py_digits_def is_digit_def digit_value_def)

section \<open>Hexadecimal digits\<close>








section \<open>The report of a check that is reached\<close>


section \<open>Where an export report comes from\<close>




section \<open>Order of the reports\<close>

text \<open>
  Claim C1. Whatever the two modules, buffers and bss sizes are, the reports that
  \<open>iter_diffs\<close> yields form a finite list whose categories strictly increase along the
  check order: \<open>.text\<close> offset, \<open>.rodata\<close> offset, \<open>.data\<close> offset, \<open>.bss\<close> offset,
  ctor offset, dtor offset, export (count or first differing index), \<open>.text\<close> (size or first
  byte), \<open>.rodata\<close> (size or first byte), \<open>.data\<close> (size or first byte), \<open>.bss\<close> size.
  So there is at most one report per category, and the strings yielded are the renderings of
  these reports in that order. This also holds for the reports yielded before an
  \<open>IndexError\<close> ends the generator.
\<close>

theorem iter_diffs_precedence:
  "yields (iter_diffs b bd bs t td ts) = map render (yields (iter_reports b bd bs t td ts)) \<and>
   sorted_wrt (<) (map category (yields (iter_reports b bd bs t td ts)))"
  using steps_from_sorted [OF steps_from_iter_checks, of b bd bs t td ts]
  by (simp add: iter_diffs_def iter_reports_def yields_def gen_map_def)

section \<open>Identical inputs\<close>

text \<open>
  Claim C2. When both sides are the same module over the same buffer, with the same bss
  size, \<open>iter_diffs\<close> yields no report. When moreover the module respects the section
  order within its buffer and its export table holds \<open>export_count\<close> entries, the
  generator also ends normally. (On a buffer too short for its header's offsets the
  generator still yields nothing, but a byte loop ends it with \<open>IndexError\<close>.)
\<close>

theorem identical_inputs_no_report:
  "yields (iter_diffs d buf s d buf s) = [] \<and>
   (section_order d buf \<and> exports_consistent d \<longrightarrow> iter_diffs d buf s d buf s = ([], None))"
  using iter_reports_same_yields [of d buf s] iter_reports_no_raise [of d buf d buf s s]
  by (auto simp: iter_diffs_def gen_map_def yields_def prod_eq_iff)

theorem identical_inputs_no_report_witness:
  "section_order ex_dll ex_data \<and> exports_consistent ex_dll \<and>
   iter_diffs ex_dll ex_data 16 ex_dll ex_data 16 = ([], None)"
  using identical_inputs_no_report [of ex_dll ex_data 16] ex_section_order ex_exports_consistent
  by simp

section \<open>One differing byte in .text\<close>



section \<open>Export tables\<close>



section \<open>Bounds of the byte loops\<close>

text \<open>
  Claim C7. Let both modules respect the section order within their own buffers:
  \<open>0 \<le> header.size \<le> rodata_offset\<close>,
  \<open>rodata_offset + reloc_table.get_size() \<le> data_offset \<le> len(buffer)\<close>, and the buffer
  length recorded in the module is that of the buffer supplied. Then every index at which
  the \<open>.text\<close>, \<open>.rodata\<close> and \<open>.data\<close> loops read, each side at its own start
  offset, falls inside the buffer read, and none of the three checks raises.
\<close>

theorem content_loops_in_bounds:
  assumes "section_order b bd" and "section_order t td"
  shows
    "(get_text_size b = get_text_size t \<longrightarrow>
        (\<forall>idx \<in> set (py_range (get_text_size b)).
           in_bounds bd (size (header b) + idx) \<and> in_bounds td (size (header t) + idx))) \<and>
     (get_rodata_size b = get_rodata_size t \<longrightarrow>
        (\<forall>idx \<in> set (py_range (get_rodata_size b)).
           in_bounds bd (rodata_offset (header b) + reloc_get_size (reloc_table b) + idx) \<and>
           in_bounds td (rodata_offset (header t) + reloc_get_size (reloc_table t) + idx))) \<and>
     (get_data_size b = get_data_size t \<longrightarrow>
        (\<forall>idx \<in> set (py_range (get_data_size b)).
           in_bounds bd (data_offset (header b) + idx) \<and>
           in_bounds td (data_offset (header t) + idx))) \<and>
     raised (check_text b bd t td) = None \<and>
     raised (check_rodata b bd t td) = None \<and>
     raised (check_data b bd t td) = None"
proof (intro conjI impI ballI)
  show "raised (check_text b bd t td) = None"
    using check_text_no_raise [OF assms] by (simp add: raised_def)
  show "raised (check_rodata b bd t td) = None"
    using check_rodata_no_raise [OF assms] by (simp add: raised_def)
  show "raised (check_data b bd t td) = None"
    using check_data_no_raise [OF assms] by (simp add: raised_def)
qed (use assms in \<open>auto simp: in_bounds_def section_order_def set_py_range get_text_size_def
      get_rodata_size_def get_data_size_def reloc_get_size_def\<close>)

theorem content_loops_in_bounds_witness:
  "section_order ex_dll ex_data \<and>
   get_text_size ex_dll = 4 \<and> get_rodata_size ex_dll = 2 \<and> get_data_size ex_dll = 2 \<and>
   in_bounds ex_data (size (header ex_dll) + 3) \<and>
   in_bounds ex_data (rodata_offset (header ex_dll) + reloc_get_size (reloc_table ex_dll) + 1) \<and>
   in_bounds ex_data (data_offset (header ex_dll) + 1) \<and>
   raised (check_text ex_dll ex_data ex_dll ex_data) = None \<and>
   raised (check_rodata ex_dll ex_data ex_dll ex_data) = None \<and>
   raised (check_data ex_dll ex_data ex_dll ex_data) = None"
proof -
  have so: "section_order ex_dll ex_data" by (rule ex_section_order)
  have sz: "get_text_size ex_dll = 4" "get_rodata_size ex_dll = 2" "get_data_size ex_dll = 2"
    by (simp_all add: get_text_size_def get_rodata_size_def get_data_size_def reloc_get_size_def
        ex_dll_def ex_header_def)
  have mem: "(3::int) \<in> set (py_range 4)" "(1::int) \<in> set (py_range 2)"
    by (simp_all add: set_py_range)
  from content_loops_in_bounds [OF so so] sz mem so show ?thesis by simp
qed

section \<open>Size mismatch and content comparison\<close>




section \<open>Differing .rodata offsets\<close>




section \<open>The module number and the module table\<close>



text \<open>
  Claim C10. For the module identifier \<open>0\<close> and module tables that are not empty, the
  lookup at index \<open>0 - 1\<close> raises no \<open>IndexError\<close>: it takes the last entry of each
  table, and \<open>diff\<close> goes on to compare the files with the last entries' bss sizes.
\<close>

theorem zero_selects_last_entry:
  assumes "entries base_tab \<noteq> []" and "entries targ_tab \<noteq> []"
  shows
    "load_bss_sizes base_tab targ_tab ''0'' =
       Inr (bss_size (last (entries base_tab)), bss_size (last (entries targ_tab))) \<and>
     (files w (joinpath BIN_ASSETS_DIR (''dlls/'' @ ''0'' @ ''.dll'')) = Some targ_data \<and>
      files w (joinpath BUILD_ASSETS_DIR (''dlls/'' @ ''0'' @ ''.dll'')) = Some base_data \<longrightarrow>
      diff w base_tab targ_tab ''0'' quiet_match =
        compare_files w ''0'' quiet_match (bss_size (last (entries base_tab)))
          (bss_size (last (entries targ_tab))) targ_data base_data)"
proof -
  have idx: "\<And>xs :: dlltab_entry list. xs \<noteq> [] \<Longrightarrow> py_index xs (0 - 1) = Inr (last xs)"
  proof -
    fix xs :: "dlltab_entry list" assume ne: "xs \<noteq> []"
    then have "nat (int (length xs) + (0 - 1)) = length xs - 1"
      by (cases xs) simp_all
    with ne show "py_index xs (0 - 1) = Inr (last xs)"
      by (simp add: py_index_def last_conv_nth Suc_le_eq)
  qed
  have sel: "load_bss_sizes base_tab targ_tab ''0'' =
       Inr (bss_size (last (entries base_tab)), bss_size (last (entries targ_tab)))"
    using idx [OF assms(1)] idx [OF assms(2)] by (simp add: load_bss_sizes_def py_int_0)
  then show ?thesis by (simp add: diff_def Let_def)
qed

theorem zero_selects_last_entry_witness:
  "entries ex_tab_base \<noteq> [] \<and> entries ex_tab_targ \<noteq> [] \<and>
   load_bss_sizes ex_tab_base ex_tab_targ ''0'' = Inr (48, 52) \<and>
   diff ex_world ex_tab_base ex_tab_targ ''0'' False =
     ([''DLL 0:'', ''.bss size mismatch: expected 0x34, found 0x30''], Returned)"
proof -
  have ne: "entries ex_tab_base \<noteq> []" "entries ex_tab_targ \<noteq> []"
    by (simp_all add: ex_tab_base_def ex_tab_targ_def)
  have f: "files ex_world (joinpath BIN_ASSETS_DIR (''dlls/'' @ ''0'' @ ''.dll'')) = Some ex_data"
    "files ex_world (joinpath BUILD_ASSETS_DIR (''dlls/'' @ ''0'' @ ''.dll'')) = Some ex_data"
    by (simp_all add: ex_world_def joinpath_def BIN_ASSETS_DIR_def BUILD_ASSETS_DIR_def)
  have c: "compare_files ex_world ''0'' False 48 52 ex_data ex_data =
     ([''DLL 0:'', ''.bss size mismatch: expected 0x34, found 0x30''], Returned)"
    by (simp add: compare_files_def ex_world_def ex_dll_bss_only0 yields_def raised_def)
  from zero_selects_last_entry [OF ne, of ex_world ex_data ex_data False] f c ne
  show ?thesis by (simp add: ex_tab_base_def ex_tab_targ_def)
qed

section \<open>Rendering of numbers\<close>




end
